theory Spec2Isabelle
  imports Complex_Main
begin

section \<open>JavaScript values\<close>

text \<open>
  \<^verbatim>\<open>response.json()\<close> yields a value typed \<^verbatim>\<open>any\<close>: the interface
  \<^verbatim>\<open>WeatherData\<close> is erased at run time, so every field of the merged object holds
  whatever JavaScript value the member expressions of \<^verbatim>\<open>fetchWeatherData\<close> read.
  The values are those of JSON (null, booleans, numbers, strings, arrays, objects)
  and \<^verbatim>\<open>undefined\<close>, which a read of an absent property gives. A number is the
  rational it denotes; the merge copies numbers and tests them for zero only
  (JSON has no NaN). An object is the list of its own properties.
\<close>

datatype jsval =
    VUndefined
  | VNull
  | VBool bool
  | VNum rat
  | VStr string
  | VArr "jsval list"
  | VObj "(string \<times> jsval) list"

datatype js_error =
    TypeError
  | SyntaxError
  | NetworkError
  | Error string

type_synonym 'a result = "js_error + 'a"

definition bind_result :: "'a result \<Rightarrow> ('a \<Rightarrow> 'b result) \<Rightarrow> 'b result" where
  "bind_result m f = (case m of Inl e \<Rightarrow> Inl e | Inr x \<Rightarrow> f x)"

definition nullish :: "jsval \<Rightarrow> bool" where
  "nullish v \<longleftrightarrow> v = VUndefined \<or> v = VNull"

text \<open>
  \<^verbatim>\<open>v.k\<close> for the property names the source reads (\<^verbatim>\<open>current_weather\<close>,
  \<^verbatim>\<open>temperature\<close>, \<^verbatim>\<open>windspeed\<close>, \<^verbatim>\<open>daily\<close>, \<^verbatim>\<open>hourly\<close>, \<^verbatim>\<open>time\<close>,
  \<^verbatim>\<open>temperature_2m_max\<close>, \<^verbatim>\<open>temperature_2m_min\<close>, \<^verbatim>\<open>temperature_2m\<close>,
  \<^verbatim>\<open>sunrise\<close>, \<^verbatim>\<open>sunset\<close>, \<^verbatim>\<open>city\<close>, \<^verbatim>\<open>countryName\<close>): reading from
  \<^verbatim>\<open>undefined\<close> or \<^verbatim>\<open>null\<close> throws a TypeError, an object gives its own
  property or \<^verbatim>\<open>undefined\<close>, and no prototype of a primitive or of an array defines
  one of these names.
\<close>

fun get_prop :: "jsval \<Rightarrow> string \<Rightarrow> jsval result" where
  "get_prop VUndefined k = Inl TypeError"
| "get_prop VNull k = Inl TypeError"
| "get_prop (VObj ps) k = Inr (case map_of ps k of None \<Rightarrow> VUndefined | Some v \<Rightarrow> v)"
| "get_prop v k = Inr VUndefined"

text \<open>A chain of member reads \<^verbatim>\<open>v.k1.k2\<close>, left to right.\<close>

fun get_path :: "jsval \<Rightarrow> string list \<Rightarrow> jsval result" where
  "get_path v [] = Inr v"
| "get_path v (k # ks) = bind_result (get_prop v k) (\<lambda>w. get_path w ks)"

text \<open>The decimal property key of an array index, as \<^verbatim>\<open>ToString(index)\<close> gives it.\<close>

fun string_of_nat :: "nat \<Rightarrow> string" where
  "string_of_nat n =
     (if n < 10 then [''0123456789'' ! n]
      else string_of_nat (n div 10) @ [''0123456789'' ! (n mod 10)])"

declare string_of_nat.simps [simp del]

text \<open>
  \<^verbatim>\<open>v[index]\<close> for an index the \<^verbatim>\<open>map\<close> callback receives, or the literal 0:
  out of range an array gives \<^verbatim>\<open>undefined\<close>, a string gives the one-unit string at
  the index, an object is read at the decimal key.
\<close>

fun get_index :: "jsval \<Rightarrow> nat \<Rightarrow> jsval result" where
  "get_index VUndefined i = Inl TypeError"
| "get_index VNull i = Inl TypeError"
| "get_index (VArr xs) i = Inr (if i < length xs then xs ! i else VUndefined)"
| "get_index (VStr s) i = Inr (if i < length s then VStr [s ! i] else VUndefined)"
| "get_index (VObj ps) i =
     Inr (case map_of ps (string_of_nat i) of None \<Rightarrow> VUndefined | Some v \<Rightarrow> v)"
| "get_index v i = Inr VUndefined"

text \<open>Truthiness, and \<^verbatim>\<open>a || b\<close> on values.\<close>

fun truthy :: "jsval \<Rightarrow> bool" where
  "truthy VUndefined = False"
| "truthy VNull = False"
| "truthy (VBool b) = b"
| "truthy (VNum n) = (n \<noteq> 0)"
| "truthy (VStr s) = (s \<noteq> [])"
| "truthy (VArr xs) = True"
| "truthy (VObj ps) = True"

definition js_or :: "jsval \<Rightarrow> jsval \<Rightarrow> jsval" where
  "js_or a b = (if truthy a then a else b)"

text \<open>
  \<^verbatim>\<open>Array.prototype.map\<close> with a callback that may throw: the callback runs on each
  element with its index, in order, and the first throw ends the call.
\<close>

fun map_from :: "(jsval \<Rightarrow> nat \<Rightarrow> 'b result) \<Rightarrow> nat \<Rightarrow> jsval list \<Rightarrow> 'b list result" where
  "map_from f i [] = Inr []"
| "map_from f i (x # xs) =
     bind_result (f x i) (\<lambda>y. bind_result (map_from f (Suc i) xs) (\<lambda>ys. Inr (y # ys)))"

text \<open>
  \<^verbatim>\<open>v.map(f)\<close>: only an array has a callable \<^verbatim>\<open>map\<close>. On \<^verbatim>\<open>undefined\<close> and
  \<^verbatim>\<open>null\<close> the read of \<^verbatim>\<open>map\<close> throws; on any other value \<^verbatim>\<open>v.map\<close> is not
  a function (a parsed object can hold no function), and the call throws.
\<close>

fun call_map :: "jsval \<Rightarrow> (jsval \<Rightarrow> nat \<Rightarrow> 'b result) \<Rightarrow> 'b list result" where
  "call_map (VArr xs) f = map_from f 0 xs"
| "call_map v f = Inl TypeError"

section \<open>The view model\<close>

record Current =
  temperature :: jsval
  windSpeed :: jsval
  humidity :: jsval
  uvIndex :: jsval
  pressure :: jsval
  condition :: jsval

record Daily =
  date :: jsval
  temperatureMax :: jsval
  temperatureMin :: jsval
  condition :: jsval

record Hourly =
  time :: jsval
  temperature :: jsval
  condition :: jsval

record Forecast =
  daily :: "Daily list"
  hourly :: "Hourly list"

record Location =
  name :: jsval
  country :: jsval

record Astronomy =
  sunrise :: jsval
  sunset :: jsval
  dawn :: jsval
  dusk :: jsval

record WeatherData =
  current :: Current
  forecast :: Forecast
  location :: Location
  astronomy :: Astronomy

section \<open>The merge\<close>

text \<open>The two \<^verbatim>\<open>map\<close> callbacks of the object literal.\<close>

definition dailyEntry :: "jsval \<Rightarrow> jsval \<Rightarrow> nat \<Rightarrow> Daily result" where
  "dailyEntry forecastData t index =
     bind_result (bind_result (get_path forecastData [''daily'', ''temperature_2m_max''])
                    (\<lambda>a. get_index a index)) (\<lambda>tmax.
     bind_result (bind_result (get_path forecastData [''daily'', ''temperature_2m_min''])
                    (\<lambda>a. get_index a index)) (\<lambda>tmin.
     Inr \<lparr> date = t, temperatureMax = tmax, temperatureMin = tmin,
           Daily.condition = VStr ''Clear'' \<rparr>))"

definition hourlyEntry :: "jsval \<Rightarrow> jsval \<Rightarrow> nat \<Rightarrow> Hourly result" where
  "hourlyEntry forecastData t index =
     bind_result (bind_result (get_path forecastData [''hourly'', ''temperature_2m''])
                    (\<lambda>a. get_index a index)) (\<lambda>temp.
     Inr \<lparr> time = t, Hourly.temperature = temp, Hourly.condition = VStr ''Clear'' \<rparr>)"

text \<open>
  The object literal \<^verbatim>\<open>mappedWeatherData\<close>, its property values evaluated in the
  order they are written; a throw in any of them leaves no object.
\<close>

definition mappedWeatherData :: "jsval \<Rightarrow> jsval \<Rightarrow> jsval \<Rightarrow> WeatherData result" where
  "mappedWeatherData currentWeatherData forecastData locationData =
     bind_result (get_path currentWeatherData [''current_weather'', ''temperature'']) (\<lambda>temp.
     bind_result (get_path currentWeatherData [''current_weather'', ''windspeed'']) (\<lambda>wind.
     bind_result (bind_result (get_path forecastData [''daily'', ''time''])
                    (\<lambda>a. call_map a (dailyEntry forecastData))) (\<lambda>ds.
     bind_result (bind_result (get_path forecastData [''hourly'', ''time''])
                    (\<lambda>a. call_map a (hourlyEntry forecastData))) (\<lambda>hs.
     bind_result (get_prop locationData ''city'') (\<lambda>city.
     bind_result (get_prop locationData ''countryName'') (\<lambda>countryName.
     bind_result (bind_result (get_path forecastData [''daily'', ''sunrise''])
                    (\<lambda>a. get_index a 0)) (\<lambda>sr.
     bind_result (bind_result (get_path forecastData [''daily'', ''sunset''])
                    (\<lambda>a. get_index a 0)) (\<lambda>ss.
     Inr \<lparr> current =
             \<lparr> Current.temperature = temp, windSpeed = wind, humidity = VNum 0,
               uvIndex = VNum 0, pressure = VNum 0, Current.condition = VStr ''Clear'' \<rparr>,
           forecast = \<lparr> daily = ds, hourly = hs \<rparr>,
           location =
             \<lparr> name = js_or city (VStr ''Unknown''),
               country = js_or countryName (VStr ''Unknown'') \<rparr>,
           astronomy =
             \<lparr> sunrise = sr, sunset = ss, dawn = VStr '''', dusk = VStr '''' \<rparr> \<rparr>))))))))"

section \<open>The aggregator\<close>

text \<open>
  The three requests, by their coordinate (the URL is the coordinate interpolated in a
  fixed template). \<^verbatim>\<open>fetch\<close> rejects, or resolves with a response that has an
  \<^verbatim>\<open>ok\<close> flag and a body; \<^verbatim>\<open>json()\<close> rejects on a body that does not parse.
\<close>

datatype request =
    CurrentWeatherRequest rat rat
  | ForecastRequest rat rat
  | LocationRequest rat rat

datatype response =
    Rejected
  | Response bool "jsval option"

type_synonym network = "request \<Rightarrow> response"

text \<open>One \<^verbatim>\<open>fetch\<close>, its \<^verbatim>\<open>ok\<close> check with the message thrown, and \<^verbatim>\<open>json()\<close>.\<close>

definition fetch_json :: "network \<Rightarrow> request \<Rightarrow> string \<Rightarrow> jsval result" where
  "fetch_json net req msg =
     (case net req of
        Rejected \<Rightarrow> Inl NetworkError
      | Response ok body \<Rightarrow>
          if \<not> ok then Inl (Error msg)
          else (case body of None \<Rightarrow> Inl SyntaxError | Some v \<Rightarrow> Inr v))"

text \<open>
  The \<^verbatim>\<open>try\<close> block up to the object literal, with the requests issued so far: each
  request is awaited before the next one is sent.
\<close>

definition tryBlock :: "network \<Rightarrow> rat \<Rightarrow> rat \<Rightarrow> request list \<times> WeatherData result" where
  "tryBlock net lat lon =
     (case fetch_json net (CurrentWeatherRequest lat lon) ''Failed to fetch current weather data'' of
        Inl e \<Rightarrow> ([CurrentWeatherRequest lat lon], Inl e)
      | Inr currentWeatherData \<Rightarrow>
     (case fetch_json net (ForecastRequest lat lon) ''Failed to fetch forecast data'' of
        Inl e \<Rightarrow> ([CurrentWeatherRequest lat lon, ForecastRequest lat lon], Inl e)
      | Inr forecastData \<Rightarrow>
     (case fetch_json net (LocationRequest lat lon) ''Failed to fetch location data'' of
        Inl e \<Rightarrow>
          ([CurrentWeatherRequest lat lon, ForecastRequest lat lon, LocationRequest lat lon],
           Inl e)
      | Inr locationData \<Rightarrow>
          ([CurrentWeatherRequest lat lon, ForecastRequest lat lon, LocationRequest lat lon],
           mappedWeatherData currentWeatherData forecastData locationData))))"

text \<open>The three \<^verbatim>\<open>useState\<close> slots.\<close>

record AppState =
  weatherData :: "WeatherData option"
  loading :: bool
  error :: "string option"

definition initialState :: AppState where
  "initialState = \<lparr> weatherData = None, loading = True, error = None \<rparr>"

definition fetchWeatherData ::
  "network \<Rightarrow> rat \<Rightarrow> rat \<Rightarrow> AppState \<Rightarrow> request list \<times> AppState" where
  "fetchWeatherData net lat lon st =
     (case tryBlock net lat lon of
        (reqs, Inr m) \<Rightarrow> (reqs, st\<lparr> weatherData := Some m, loading := False \<rparr>)
      | (reqs, Inl err) \<Rightarrow>
          (reqs, st\<lparr> error := Some ''Failed to fetch weather data'', loading := False \<rparr>))"

section \<open>The location resolver\<close>

text \<open>
  \<^verbatim>\<open>navigator.geolocation\<close> is absent, or \<^verbatim>\<open>getCurrentPosition\<close> calls the
  success callback with a position, calls the error callback, or calls neither.
\<close>

datatype position_outcome =
    Position rat rat
  | PositionError
  | NoCallback

record Host =
  geolocation :: "position_outcome option"
  network :: network

definition getLocation :: "Host \<Rightarrow> AppState \<Rightarrow> request list \<times> AppState" where
  "getLocation host st =
     (case geolocation host of
        Some (Position latitude longitude) \<Rightarrow>
          fetchWeatherData (network host) latitude longitude st
      | Some PositionError \<Rightarrow>
          ([], st\<lparr> error := Some ''Failed to get location'', loading := False \<rparr>)
      | Some NoCallback \<Rightarrow> ([], st)
      | None \<Rightarrow>
          ([], st\<lparr> error := Some ''Geolocation is not supported by this browser'',
                    loading := False \<rparr>))"

text \<open>The effect run once on mount.\<close>

definition useEffect :: "Host \<Rightarrow> request list \<times> AppState" where
  "useEffect host = getLocation host initialState"

section \<open>Where the merge throws\<close>

text \<open>
  The responses on which the object literal throws, read off the member expressions: a
  read from \<^verbatim>\<open>undefined\<close> or \<^verbatim>\<open>null\<close>, or \<^verbatim>\<open>map\<close> called on a value that is not
  an array. The temperature arrays are read in the callbacks only, so they matter when
  the time array has an element.
\<close>

fun array_of :: "jsval result \<Rightarrow> jsval list option" where
  "array_of (Inr (VArr xs)) = Some xs"
| "array_of r = None"

definition reads_nullish :: "jsval \<Rightarrow> string list \<Rightarrow> bool" where
  "reads_nullish v path = (case get_path v path of Inl e \<Rightarrow> True | Inr w \<Rightarrow> nullish w)"

definition merge_throws :: "jsval \<Rightarrow> jsval \<Rightarrow> jsval \<Rightarrow> bool" where
  "merge_throws cw fd ld \<longleftrightarrow>
     reads_nullish cw [''current_weather''] \<or>
     (case array_of (get_path fd [''daily'', ''time'']) of
        None \<Rightarrow> True
      | Some ts \<Rightarrow>
          ts \<noteq> [] \<and>
          (reads_nullish fd [''daily'', ''temperature_2m_max''] \<or>
           reads_nullish fd [''daily'', ''temperature_2m_min''])) \<or>
     (case array_of (get_path fd [''hourly'', ''time'']) of
        None \<Rightarrow> True
      | Some hs \<Rightarrow> hs \<noteq> [] \<and> reads_nullish fd [''hourly'', ''temperature_2m'']) \<or>
     nullish ld \<or>
     reads_nullish fd [''daily'', ''sunrise''] \<or>
     reads_nullish fd [''daily'', ''sunset'']"

section \<open>Sample responses\<close>

text \<open>A network that answers each of the three requests with a fixed response.\<close>

definition responding :: "response \<Rightarrow> response \<Rightarrow> response \<Rightarrow> network" where
  "responding a b c req =
     (case req of
        CurrentWeatherRequest lat lon \<Rightarrow> a
      | ForecastRequest lat lon \<Rightarrow> b
      | LocationRequest lat lon \<Rightarrow> c)"

definition berlin_current :: jsval where
  "berlin_current =
     VObj [(''current_weather'',
            VObj [(''temperature'', VNum (184 / 10)), (''windspeed'', VNum (31 / 10))])]"

definition berlin_daily :: jsval where
  "berlin_daily =
     VObj [(''time'', VArr [VStr ''2024-06-01'', VStr ''2024-06-02'']),
           (''temperature_2m_max'', VArr [VNum 22, VNum 24]),
           (''temperature_2m_min'', VArr [VNum 14, VNum 15]),
           (''sunrise'', VArr [VStr ''2024-06-01T04:45'']),
           (''sunset'', VArr [VStr ''2024-06-01T21:10''])]"

definition berlin_location :: jsval where
  "berlin_location = VObj [(''city'', VStr ''Berlin''), (''countryName'', VStr ''Germany'')]"

definition berlin_forecast_daily_only :: jsval where
  "berlin_forecast_daily_only = VObj [(''daily'', berlin_daily)]"

definition sample_hourly :: jsval where
  "sample_hourly =
     VObj [(''time'', VArr [VStr ''2024-06-01T00:00'', VStr ''2024-06-01T01:00'']),
           (''temperature_2m'', VArr [VNum 13, VNum (25 / 2)])]"

definition sample_forecast :: jsval where
  "sample_forecast = VObj [(''daily'', berlin_daily), (''hourly'', sample_hourly)]"

definition sample_snapshot :: WeatherData where
  "sample_snapshot =
     \<lparr> current =
         \<lparr> Current.temperature = VNum (184 / 10), windSpeed = VNum (31 / 10),
           humidity = VNum 0, uvIndex = VNum 0, pressure = VNum 0,
           Current.condition = VStr ''Clear'' \<rparr>,
       forecast =
         \<lparr> daily =
             [\<lparr> date = VStr ''2024-06-01'', temperatureMax = VNum 22,
                temperatureMin = VNum 14, Daily.condition = VStr ''Clear'' \<rparr>,
              \<lparr> date = VStr ''2024-06-02'', temperatureMax = VNum 24,
                temperatureMin = VNum 15, Daily.condition = VStr ''Clear'' \<rparr>],
           hourly =
             [\<lparr> time = VStr ''2024-06-01T00:00'', Hourly.temperature = VNum 13,
                Hourly.condition = VStr ''Clear'' \<rparr>,
              \<lparr> time = VStr ''2024-06-01T01:00'', Hourly.temperature = VNum (25 / 2),
                Hourly.condition = VStr ''Clear'' \<rparr>] \<rparr>,
       location = \<lparr> name = VStr ''Berlin'', country = VStr ''Germany'' \<rparr>,
       astronomy =
         \<lparr> sunrise = VStr ''2024-06-01T04:45'', sunset = VStr ''2024-06-01T21:10'',
           dawn = VStr '''', dusk = VStr '''' \<rparr> \<rparr>"

definition location_without_city :: jsval where
  "location_without_city = VObj [(''countryName'', VStr ''Germany'')]"

definition failing_forecast_network :: network where
  "failing_forecast_network =
     responding (Response True (Some berlin_current)) (Response False (Some sample_forecast))
       (Response True (Some berlin_location))"

definition current_with_daily :: jsval where
  "current_with_daily =
     VObj [(''current_weather'',
            VObj [(''temperature'', VNum (184 / 10)), (''windspeed'', VNum (31 / 10))]),
           (''daily'',
            VObj [(''sunrise'', VArr [VStr ''2024-06-01T04:44'']),
                  (''sunset'', VArr [VStr ''2024-06-01T21:11''])])]"

definition location_with_empty_country :: jsval where
  "location_with_empty_country = VObj [(''city'', VStr ''Berlin''), (''countryName'', VStr '''')]"

definition sample_network :: network where
  "sample_network =
     responding (Response True (Some berlin_current)) (Response True (Some sample_forecast))
       (Response True (Some berlin_location))"

definition host_without_geolocation :: Host where
  "host_without_geolocation = \<lparr> geolocation = None, network = sample_network \<rparr>"

definition short_forecast :: jsval where
  "short_forecast =
     VObj [(''daily'',
            VObj [(''time'', VArr [VStr ''2024-06-01'', VStr ''2024-06-02'']),
                  (''temperature_2m_max'', VArr [VNum 22]),
                  (''temperature_2m_min'', VArr []),
                  (''sunrise'', VArr [VStr ''2024-06-01T04:45'']),
                  (''sunset'', VArr [VStr ''2024-06-01T21:10''])]),
           (''hourly'',
            VObj [(''time'', VArr [VStr ''2024-06-01T00:00'', VStr ''2024-06-01T01:00'']),
                  (''temperature_2m'', VArr [VNum 13])])]"

definition bare_current :: jsval where
  "bare_current = VObj [(''current_weather'', VObj [])]"

definition forecast_without_time :: jsval where
  "forecast_without_time =
     VObj [(''daily'',
            VObj [(''temperature_2m_max'', VArr [VNum 22, VNum 24]),
                  (''temperature_2m_min'', VArr [VNum 14, VNum 15]),
                  (''sunrise'', VArr [VStr ''2024-06-01T04:45'']),
                  (''sunset'', VArr [VStr ''2024-06-01T21:10''])]),
           (''hourly'', sample_hourly)]"

section \<open>Properties of the operations\<close>

lemma bind_result_Inl [simp]: "bind_result (Inl e) f = Inl e"
  by (simp add: bind_result_def)

lemma bind_result_Inr [simp]: "bind_result (Inr x) f = f x"
  by (simp add: bind_result_def)

lemma bind_result_eq_Inr: "bind_result m f = Inr y \<longleftrightarrow> (\<exists>x. m = Inr x \<and> f x = Inr y)"
  by (cases m) simp_all

lemma map_from_length: "map_from f i xs = Inr ys \<Longrightarrow> length ys = length xs"
  by (induction xs arbitrary: i ys) (auto simp: bind_result_eq_Inr)

lemma map_from_nth:
  "map_from f i xs = Inr ys \<Longrightarrow> j < length xs \<Longrightarrow> f (xs ! j) (i + j) = Inr (ys ! j)"
proof (induction xs arbitrary: i ys j)
  case Nil
  then show ?case by simp
next
  case (Cons x xs)
  from Cons.prems(1) obtain y ys' where
    y: "f x i = Inr y" and ys': "map_from f (Suc i) xs = Inr ys'" and ys: "ys = y # ys'"
    by (auto simp: bind_result_eq_Inr)
  show ?case
  proof (cases j)
    case 0
    with y ys show ?thesis by simp
  next
    case (Suc k)
    with Cons.prems(2) have "k < length xs" by simp
    from Cons.IH [OF ys' this] Suc ys show ?thesis by simp
  qed
qed

lemma call_map_Inr:
  "call_map v f = Inr ys \<longleftrightarrow> (\<exists>xs. v = VArr xs \<and> map_from f 0 xs = Inr ys)"
  by (cases v) simp_all

lemma dailyEntry_Inr:
  "dailyEntry fd t i = Inr d \<longleftrightarrow>
     (\<exists>tmax tmin.
        bind_result (get_path fd [''daily'', ''temperature_2m_max'']) (\<lambda>a. get_index a i) = Inr tmax \<and>
        bind_result (get_path fd [''daily'', ''temperature_2m_min'']) (\<lambda>a. get_index a i) = Inr tmin \<and>
        d = \<lparr> date = t, temperatureMax = tmax, temperatureMin = tmin,
              Daily.condition = VStr ''Clear'' \<rparr>)"
  unfolding dailyEntry_def by (subst bind_result_eq_Inr, subst bind_result_eq_Inr) auto

lemma hourlyEntry_Inr:
  "hourlyEntry fd t i = Inr h \<longleftrightarrow>
     (\<exists>temp.
        bind_result (get_path fd [''hourly'', ''temperature_2m'']) (\<lambda>a. get_index a i) = Inr temp \<and>
        h = \<lparr> time = t, Hourly.temperature = temp, Hourly.condition = VStr ''Clear'' \<rparr>)"
  unfolding hourlyEntry_def by (subst bind_result_eq_Inr) auto

lemma mappedWeatherData_Inr_iff:
  "mappedWeatherData cw fd ld = Inr s \<longleftrightarrow>
     (\<exists>temp wind ts ds hts hs city countryName ra sr sa ss.
        get_path cw [''current_weather'', ''temperature''] = Inr temp \<and>
        get_path cw [''current_weather'', ''windspeed''] = Inr wind \<and>
        get_path fd [''daily'', ''time''] = Inr ts \<and>
        call_map ts (dailyEntry fd) = Inr ds \<and>
        get_path fd [''hourly'', ''time''] = Inr hts \<and>
        call_map hts (hourlyEntry fd) = Inr hs \<and>
        get_prop ld ''city'' = Inr city \<and>
        get_prop ld ''countryName'' = Inr countryName \<and>
        get_path fd [''daily'', ''sunrise''] = Inr ra \<and> get_index ra 0 = Inr sr \<and>
        get_path fd [''daily'', ''sunset''] = Inr sa \<and> get_index sa 0 = Inr ss \<and>
        s = \<lparr> current =
             \<lparr> Current.temperature = temp, windSpeed = wind, humidity = VNum 0,
               uvIndex = VNum 0, pressure = VNum 0, Current.condition = VStr ''Clear'' \<rparr>,
           forecast = \<lparr> daily = ds, hourly = hs \<rparr>,
           location =
             \<lparr> name = js_or city (VStr ''Unknown''),
               country = js_or countryName (VStr ''Unknown'') \<rparr>,
           astronomy =
             \<lparr> sunrise = sr, sunset = ss, dawn = VStr '''', dusk = VStr '''' \<rparr> \<rparr>)"
  unfolding mappedWeatherData_def bind_result_eq_Inr by blast

lemma tryBlock_responses:
  assumes "net (CurrentWeatherRequest lat lon) = Response True (Some cw)"
    and "net (ForecastRequest lat lon) = Response True (Some fd)"
    and "net (LocationRequest lat lon) = Response True (Some ld)"
  shows "tryBlock net lat lon =
    ([CurrentWeatherRequest lat lon, ForecastRequest lat lon, LocationRequest lat lon],
     mappedWeatherData cw fd ld)"
  using assms by (simp add: tryBlock_def fetch_json_def)

lemma fetch_json_Inr:
  "fetch_json net req msg = Inr v \<longleftrightarrow> net req = Response True (Some v)"
  by (auto simp: fetch_json_def split: response.splits option.splits)

lemma tryBlock_Inr:
  "snd (tryBlock net lat lon) = Inr s \<longleftrightarrow>
     (\<exists>cw fd ld.
        net (CurrentWeatherRequest lat lon) = Response True (Some cw) \<and>
        net (ForecastRequest lat lon) = Response True (Some fd) \<and>
        net (LocationRequest lat lon) = Response True (Some ld) \<and>
        mappedWeatherData cw fd ld = Inr s)"
proof
  assume "snd (tryBlock net lat lon) = Inr s"
  then show "\<exists>cw fd ld.
        net (CurrentWeatherRequest lat lon) = Response True (Some cw) \<and>
        net (ForecastRequest lat lon) = Response True (Some fd) \<and>
        net (LocationRequest lat lon) = Response True (Some ld) \<and>
        mappedWeatherData cw fd ld = Inr s"
    by (auto simp: tryBlock_def fetch_json_Inr split: sum.splits)
next
  assume "\<exists>cw fd ld.
        net (CurrentWeatherRequest lat lon) = Response True (Some cw) \<and>
        net (ForecastRequest lat lon) = Response True (Some fd) \<and>
        net (LocationRequest lat lon) = Response True (Some ld) \<and>
        mappedWeatherData cw fd ld = Inr s"
  then show "snd (tryBlock net lat lon) = Inr s"
    by (auto simp: tryBlock_responses)
qed

lemma fetchWeatherData_snd:
  "snd (fetchWeatherData net lat lon st) =
     (case snd (tryBlock net lat lon) of
        Inr m \<Rightarrow> st\<lparr> weatherData := Some m, loading := False \<rparr>
      | Inl err \<Rightarrow> st\<lparr> error := Some ''Failed to fetch weather data'', loading := False \<rparr>)"
  by (simp add: fetchWeatherData_def split: prod.splits sum.splits)

lemma produced_snapshot:
  assumes "weatherData (snd (fetchWeatherData net lat lon initialState)) = Some s"
  shows "snd (tryBlock net lat lon) = Inr s"
  using assms by (simp add: fetchWeatherData_snd initialState_def split: sum.splits)

lemmas merge_eval =
  mappedWeatherData_def dailyEntry_def hourlyEntry_def js_or_def
  berlin_current_def berlin_daily_def berlin_location_def sample_hourly_def sample_forecast_def

lemma sample_merge:
  "mappedWeatherData berlin_current sample_forecast berlin_location = Inr sample_snapshot"
  by (simp add: merge_eval sample_snapshot_def)

lemma responding_simps [simp]:
  "responding a b c (CurrentWeatherRequest lat lon) = a"
  "responding a b c (ForecastRequest lat lon) = b"
  "responding a b c (LocationRequest lat lon) = c"
  by (simp_all add: responding_def)

lemma fetchWeatherData_responses:
  assumes "net (CurrentWeatherRequest lat lon) = Response True (Some cw)"
    and "net (ForecastRequest lat lon) = Response True (Some fd)"
    and "net (LocationRequest lat lon) = Response True (Some ld)"
  shows "snd (fetchWeatherData net lat lon st) =
     (case mappedWeatherData cw fd ld of
        Inr m \<Rightarrow> st\<lparr> weatherData := Some m, loading := False \<rparr>
      | Inl err \<Rightarrow> st\<lparr> error := Some ''Failed to fetch weather data'', loading := False \<rparr>)"
  by (simp add: fetchWeatherData_snd tryBlock_responses [OF assms])

lemma produced_merge:
  assumes "weatherData (snd (fetchWeatherData net lat lon initialState)) = Some s"
  shows "\<exists>cw fd ld.
        net (CurrentWeatherRequest lat lon) = Response True (Some cw) \<and>
        net (ForecastRequest lat lon) = Response True (Some fd) \<and>
        net (LocationRequest lat lon) = Response True (Some ld) \<and>
        mappedWeatherData cw fd ld = Inr s"
  using produced_snapshot [OF assms] by (simp add: tryBlock_Inr)

lemma sample_run:
  "snd (fetchWeatherData
      (responding (Response True (Some berlin_current)) (Response True (Some sample_forecast))
         (Response True (Some berlin_location))) lat lon initialState) =
   initialState\<lparr> weatherData := Some sample_snapshot, loading := False \<rparr>"
  by (simp add: fetchWeatherData_responses [where cw = berlin_current and fd = sample_forecast
        and ld = berlin_location] sample_merge)

lemma fetch_json_not_ok:
  "net req = Response False body \<Longrightarrow> fetch_json net req msg = Inl (Error msg)"
  by (simp add: fetch_json_def)

lemma tryBlock_Inl:
  assumes "fetch_json net (CurrentWeatherRequest lat lon) ''Failed to fetch current weather data'' = Inl e1
     \<or> fetch_json net (ForecastRequest lat lon) ''Failed to fetch forecast data'' = Inl e2
     \<or> fetch_json net (LocationRequest lat lon) ''Failed to fetch location data'' = Inl e3"
  shows "\<exists>e. snd (tryBlock net lat lon) = Inl e"
  using assms by (auto simp: tryBlock_def split: sum.splits)

lemma fetchWeatherData_failed:
  assumes "snd (tryBlock net lat lon) = Inl e"
  shows "snd (fetchWeatherData net lat lon st) =
     st\<lparr> error := Some ''Failed to fetch weather data'', loading := False \<rparr>"
  using assms by (simp add: fetchWeatherData_snd)

lemma run_responding:
  "snd (fetchWeatherData
      (responding (Response True (Some a)) (Response True (Some b)) (Response True (Some c)))
      lat lon st) =
     (case mappedWeatherData a b c of
        Inr m \<Rightarrow> st\<lparr> weatherData := Some m, loading := False \<rparr>
      | Inl err \<Rightarrow> st\<lparr> error := Some ''Failed to fetch weather data'', loading := False \<rparr>)"
  by (rule fetchWeatherData_responses) simp_all

lemma map_from_set:
  assumes "map_from f i xs = Inr ys" and "y \<in> set ys"
  shows "\<exists>x j. f x j = Inr y"
proof -
  from assms(2) obtain k where k: "k < length ys" "ys ! k = y"
    by (auto simp: in_set_conv_nth)
  with map_from_length [OF assms(1)] have "k < length xs" by simp
  from map_from_nth [OF assms(1) this] k show ?thesis by auto
qed

lemma get_prop_total: "\<not> nullish v \<Longrightarrow> \<exists>w. get_prop v k = Inr w"
  by (cases v) (simp_all add: nullish_def)

lemma get_index_total: "\<not> nullish v \<Longrightarrow> \<exists>w. get_index v i = Inr w"
  by (cases v) (simp_all add: nullish_def)

lemma map_from_total:
  assumes "\<And>x j. \<exists>y. f x j = Inr y"
  shows "\<exists>ys. map_from f i xs = Inr ys"
proof (induction xs arbitrary: i)
  case Nil
  show ?case by simp
next
  case (Cons x xs)
  from assms obtain y where "f x i = Inr y" by blast
  moreover from Cons obtain ys where "map_from f (Suc i) xs = Inr ys" by blast
  ultimately show ?case by simp
qed

lemma merge_succeeds:
  assumes cw: "get_prop cw ''current_weather'' = Inr c" "\<not> nullish c"
    and dt: "get_path fd [''daily'', ''time''] = Inr (VArr ts)"
    and mx: "get_path fd [''daily'', ''temperature_2m_max''] = Inr mx" "\<not> nullish mx"
    and mn: "get_path fd [''daily'', ''temperature_2m_min''] = Inr mn" "\<not> nullish mn"
    and ht: "get_path fd [''hourly'', ''time''] = Inr (VArr hs)"
    and tt: "get_path fd [''hourly'', ''temperature_2m''] = Inr tt" "\<not> nullish tt"
    and ld: "\<not> nullish ld"
    and sr: "get_path fd [''daily'', ''sunrise''] = Inr ra" "\<not> nullish ra"
    and ss: "get_path fd [''daily'', ''sunset''] = Inr sa" "\<not> nullish sa"
  shows "\<exists>s. mappedWeatherData cw fd ld = Inr s"
proof -
  from cw get_prop_total [OF cw(2)] obtain temp wind where
    1: "get_path cw [''current_weather'', ''temperature''] = Inr temp"
       "get_path cw [''current_weather'', ''windspeed''] = Inr wind"
    by (metis bind_result_Inr get_path.simps)
  have "\<exists>d. dailyEntry fd t i = Inr d" for t i
    using get_index_total [OF mx(2), of i] get_index_total [OF mn(2), of i] mx(1) mn(1)
    by (auto simp: dailyEntry_Inr)
  then obtain ds where 2: "call_map (VArr ts) (dailyEntry fd) = Inr ds"
    using map_from_total [of "dailyEntry fd" 0 ts] by auto
  have "\<exists>h. hourlyEntry fd t i = Inr h" for t i
    using get_index_total [OF tt(2), of i] tt(1)
    by (auto simp: hourlyEntry_Inr)
  then obtain hs' where 3: "call_map (VArr hs) (hourlyEntry fd) = Inr hs'"
    using map_from_total [of "hourlyEntry fd" 0 hs] by auto
  from get_prop_total [OF ld] obtain city countryName where
    4: "get_prop ld ''city'' = Inr city" "get_prop ld ''countryName'' = Inr countryName"
    by blast
  from get_index_total [OF sr(2)] get_index_total [OF ss(2)] obtain r0 s0 where
    5: "get_index ra 0 = Inr r0" "get_index sa 0 = Inr s0"
    by blast
  from 1 dt 2 ht 3 4 sr(1) 5 ss(1) show ?thesis
    unfolding mappedWeatherData_Inr_iff by blast
qed

lemma merged_daily:
  assumes "mappedWeatherData cw fd ld = Inr s"
    and "get_path fd [''daily'', ''time''] = Inr (VArr ts)"
  shows "map_from (dailyEntry fd) 0 ts = Inr (daily (forecast s))"
  using assms by (auto simp: mappedWeatherData_Inr_iff)

lemma merged_hourly:
  assumes "mappedWeatherData cw fd ld = Inr s"
    and "get_path fd [''hourly'', ''time''] = Inr (VArr hs)"
  shows "map_from (hourlyEntry fd) 0 hs = Inr (hourly (forecast s))"
  using assms by (auto simp: mappedWeatherData_Inr_iff)

lemma isl_bind_result: "isl (bind_result m f) \<longleftrightarrow> isl m \<or> isl (f (projr m))"
  by (cases m) simp_all

lemma not_isl_iff: "\<not> isl r \<longleftrightarrow> (\<exists>x. r = Inr x)"
  by (cases r) simp_all

lemma isl_get_prop: "isl (get_prop v k) \<longleftrightarrow> nullish v"
  by (cases v) (simp_all add: nullish_def)

lemma isl_get_index: "isl (get_index v i) \<longleftrightarrow> nullish v"
  by (cases v) (simp_all add: nullish_def)

lemma isl_read_index:
  "isl (bind_result (get_path v p) (\<lambda>a. get_index a i)) \<longleftrightarrow> reads_nullish v p"
  by (cases "get_path v p") (simp_all add: reads_nullish_def isl_get_index)

lemma isl_read_prop:
  "isl (get_path v [k, k']) \<longleftrightarrow> reads_nullish v [k]"
  by (cases "get_prop v k") (simp_all add: reads_nullish_def isl_get_prop isl_bind_result)

lemma isl_map_from:
  assumes "\<And>x j. isl (f x j) = P"
  shows "isl (map_from f i xs) \<longleftrightarrow> xs \<noteq> [] \<and> P"
proof (induction xs arbitrary: i)
  case Nil
  show ?case by simp
next
  case (Cons x xs)
  show ?case
    by (auto simp: isl_bind_result assms Cons)
qed

lemma isl_dailyEntry:
  "isl (dailyEntry fd t i) \<longleftrightarrow>
     reads_nullish fd [''daily'', ''temperature_2m_max''] \<or>
     reads_nullish fd [''daily'', ''temperature_2m_min'']"
proof -
  have "isl (dailyEntry fd t i) \<longleftrightarrow>
     isl (bind_result (get_path fd [''daily'', ''temperature_2m_max''])
       (\<lambda>a. get_index a i)) \<or>
     isl (bind_result (get_path fd [''daily'', ''temperature_2m_min''])
       (\<lambda>a. get_index a i))"
    unfolding dailyEntry_def
    by (subst isl_bind_result, subst isl_bind_result) (simp del: get_path.simps)
  then show ?thesis
    by (simp only: isl_read_index)
qed

lemma isl_hourlyEntry:
  "isl (hourlyEntry fd t i) \<longleftrightarrow> reads_nullish fd [''hourly'', ''temperature_2m'']"
proof -
  have "isl (hourlyEntry fd t i) \<longleftrightarrow>
     isl (bind_result (get_path fd [''hourly'', ''temperature_2m''])
       (\<lambda>a. get_index a i))"
    unfolding hourlyEntry_def
    by (subst isl_bind_result) (simp del: get_path.simps)
  then show ?thesis
    by (simp only: isl_read_index)
qed

lemma isl_call_map:
  assumes "\<And>x j. isl (f x j) = P"
  shows "isl (bind_result r (\<lambda>a. call_map a f)) \<longleftrightarrow>
     (case array_of r of None \<Rightarrow> True | Some xs \<Rightarrow> xs \<noteq> [] \<and> P)"
proof (cases r)
  case (Inl e)
  then show ?thesis by simp
next
  case (Inr v)
  then show ?thesis
    by (cases v) (simp_all add: isl_map_from [of f P, OF assms])
qed

text \<open>The object literal throws on exactly the responses \<open>merge_throws\<close> describes.\<close>

lemma mappedWeatherData_throws_iff:
  "isl (mappedWeatherData cw fd ld) \<longleftrightarrow> merge_throws cw fd ld"
proof -
  have "\<not> isl (mappedWeatherData cw fd ld) \<longleftrightarrow>
     (\<exists>temp. get_path cw [''current_weather'', ''temperature''] = Inr temp) \<and>
     (\<exists>wind. get_path cw [''current_weather'', ''windspeed''] = Inr wind) \<and>
     (\<exists>ds. bind_result (get_path fd [''daily'', ''time''])
           (\<lambda>a. call_map a (dailyEntry fd)) = Inr ds) \<and>
     (\<exists>hs. bind_result (get_path fd [''hourly'', ''time''])
           (\<lambda>a. call_map a (hourlyEntry fd)) = Inr hs) \<and>
     (\<exists>city. get_prop ld ''city'' = Inr city) \<and>
     (\<exists>countryName. get_prop ld ''countryName'' = Inr countryName) \<and>
     (\<exists>sr. bind_result (get_path fd [''daily'', ''sunrise'']) (\<lambda>a. get_index a 0) = Inr sr) \<and>
     (\<exists>ss. bind_result (get_path fd [''daily'', ''sunset'']) (\<lambda>a. get_index a 0) = Inr ss)"
    unfolding not_isl_iff mappedWeatherData_Inr_iff bind_result_eq_Inr by blast
  then have "isl (mappedWeatherData cw fd ld) \<longleftrightarrow>
     isl (get_path cw [''current_weather'', ''temperature'']) \<or>
     isl (get_path cw [''current_weather'', ''windspeed'']) \<or>
     isl (bind_result (get_path fd [''daily'', ''time''])
           (\<lambda>a. call_map a (dailyEntry fd))) \<or>
     isl (bind_result (get_path fd [''hourly'', ''time''])
           (\<lambda>a. call_map a (hourlyEntry fd))) \<or>
     isl (get_prop ld ''city'') \<or>
     isl (get_prop ld ''countryName'') \<or>
     isl (bind_result (get_path fd [''daily'', ''sunrise'']) (\<lambda>a. get_index a 0)) \<or>
     isl (bind_result (get_path fd [''daily'', ''sunset'']) (\<lambda>a. get_index a 0))"
    unfolding not_isl_iff [symmetric] by blast
  then show ?thesis
    by (simp only: isl_read_prop isl_read_index isl_get_prop
        isl_call_map [of "dailyEntry fd", OF isl_dailyEntry]
        isl_call_map [of "hourlyEntry fd", OF isl_hourlyEntry] merge_throws_def) blast
qed

lemma fetch_json_Inl:
  assumes "net req = Rejected \<or> (\<exists>body. net req = Response False body) \<or>
     net req = Response True None"
  shows "\<exists>e. fetch_json net req msg = Inl e"
  using assms by (auto simp: fetch_json_def)

text \<open>
  A forecast response with no \<^verbatim>\<open>hourly\<close> block at all: the read of
  \<^verbatim>\<open>forecastData.hourly.time\<close> throws.
\<close>

lemma berlin_without_hourly:
  "mappedWeatherData berlin_current (VObj [(''daily'', berlin_daily)]) berlin_location =
     Inl TypeError"
  by (simp add: mappedWeatherData_def dailyEntry_def berlin_current_def berlin_daily_def)

text \<open>Every run ends in one of two states: the message set, or the snapshot set.\<close>

lemma aggregation_outcome:
  "snd (fetchWeatherData net lat lon st) =
     st\<lparr> error := Some ''Failed to fetch weather data'', loading := False \<rparr> \<or>
   (\<exists>s. snd (fetchWeatherData net lat lon st) =
     st\<lparr> weatherData := Some s, loading := False \<rparr>)"
  by (cases "snd (tryBlock net lat lon)") (auto simp: fetchWeatherData_snd)

section \<open>The claims\<close>



text \<open>
  C2. If one of the three calls answers with a non-success status, the aggregation ends
  with the one message \<^verbatim>\<open>Failed to fetch weather data\<close>, and the snapshot slot is
  left as it was: empty, in a session started from the initial state.
\<close>

theorem non_success_status_fails:
  assumes "req \<in> {CurrentWeatherRequest lat lon, ForecastRequest lat lon, LocationRequest lat lon}"
    and "net req = Response False body"
  shows "snd (fetchWeatherData net lat lon st) =
       st\<lparr> error := Some ''Failed to fetch weather data'', loading := False \<rparr> \<and>
     weatherData (snd (fetchWeatherData net lat lon st)) = weatherData st \<and>
     weatherData (snd (fetchWeatherData net lat lon initialState)) = None"
proof -
  from assms have "\<exists>e. snd (tryBlock net lat lon) = Inl e"
    by (auto intro!: tryBlock_Inl dest: fetch_json_not_ok)
  then obtain e where e: "snd (tryBlock net lat lon) = Inl e" ..
  show ?thesis
    by (simp add: fetchWeatherData_failed [OF e] initialState_def)
qed

theorem non_success_status_fails_witness:
  "failing_forecast_network (ForecastRequest (5252 / 100) (13405 / 1000)) =
     Response False (Some sample_forecast) \<and>
   snd (fetchWeatherData failing_forecast_network (5252 / 100) (13405 / 1000) initialState) =
     \<lparr> weatherData = None, loading = False, error = Some ''Failed to fetch weather data'' \<rparr>"
proof -
  have 1: "ForecastRequest (5252 / 100) (13405 / 1000) \<in>
      {CurrentWeatherRequest (5252 / 100) (13405 / 1000), ForecastRequest (5252 / 100) (13405 / 1000),
       LocationRequest (5252 / 100) (13405 / 1000)}"
    by simp
  have 2: "failing_forecast_network (ForecastRequest (5252 / 100) (13405 / 1000)) =
      Response False (Some sample_forecast)"
    by (simp add: failing_forecast_network_def)
  from non_success_status_fails [where net = failing_forecast_network
      and req = "ForecastRequest (5252 / 100) (13405 / 1000)" and st = initialState, OF 1 2] 2
  show ?thesis
    by (simp add: initialState_def)
qed

text \<open>
  C3. In a snapshot the aggregator produced, an absent or empty \<^verbatim>\<open>city\<close> gives the
  name \<^verbatim>\<open>Unknown\<close>, and an absent or empty \<^verbatim>\<open>countryName\<close> gives the country
  \<^verbatim>\<open>Unknown\<close>; neither fallback looks at the other field.
\<close>

theorem location_fallback:
  assumes "net (LocationRequest lat lon) = Response True (Some ld)"
    and "weatherData (snd (fetchWeatherData net lat lon initialState)) = Some s"
  shows "((get_prop ld ''city'' = Inr VUndefined \<or> get_prop ld ''city'' = Inr (VStr ''''))
        \<longrightarrow> name (location s) = VStr ''Unknown'') \<and>
     ((get_prop ld ''countryName'' = Inr VUndefined \<or>
       get_prop ld ''countryName'' = Inr (VStr ''''))
        \<longrightarrow> country (location s) = VStr ''Unknown'')"
proof -
  from produced_merge [OF assms(2)] assms(1) obtain cw fd where
    "mappedWeatherData cw fd ld = Inr s" by auto
  then obtain city countryName where
    "get_prop ld ''city'' = Inr city" "get_prop ld ''countryName'' = Inr countryName"
    "name (location s) = js_or city (VStr ''Unknown'')"
    "country (location s) = js_or countryName (VStr ''Unknown'')"
    by (auto simp: mappedWeatherData_Inr_iff)
  then show ?thesis
    by (auto simp: js_or_def)
qed

theorem location_fallback_witness:
  "get_prop location_without_city ''city'' = Inr VUndefined \<and>
   (\<exists>s. weatherData (snd (fetchWeatherData
        (responding (Response True (Some berlin_current)) (Response True (Some sample_forecast))
           (Response True (Some location_without_city))) 0 0 initialState)) = Some s \<and>
      name (location s) = VStr ''Unknown'' \<and> country (location s) = VStr ''Germany'') \<and>
   get_prop location_with_empty_country ''countryName'' = Inr (VStr '''') \<and>
   (\<exists>s. weatherData (snd (fetchWeatherData
        (responding (Response True (Some berlin_current)) (Response True (Some sample_forecast))
           (Response True (Some location_with_empty_country))) 0 0 initialState)) = Some s \<and>
      name (location s) = VStr ''Berlin'' \<and> country (location s) = VStr ''Unknown'')"
proof -
  let ?n1 = "responding (Response True (Some berlin_current))
     (Response True (Some sample_forecast)) (Response True (Some location_without_city))"
  let ?n2 = "responding (Response True (Some berlin_current))
     (Response True (Some sample_forecast)) (Response True (Some location_with_empty_country))"
  let ?s1 = "sample_snapshot\<lparr> location := \<lparr> name = VStr ''Unknown'', country = VStr ''Germany'' \<rparr> \<rparr>"
  let ?s2 = "sample_snapshot\<lparr> location := \<lparr> name = VStr ''Berlin'', country = VStr ''Unknown'' \<rparr> \<rparr>"
  have c1: "get_prop location_without_city ''city'' = Inr VUndefined"
    by (simp add: location_without_city_def)
  have c2: "get_prop location_with_empty_country ''countryName'' = Inr (VStr '''')"
    by (simp add: location_with_empty_country_def)
  have m1: "mappedWeatherData berlin_current sample_forecast location_without_city = Inr ?s1"
    by (simp add: merge_eval location_without_city_def sample_snapshot_def)
  have m2: "mappedWeatherData berlin_current sample_forecast location_with_empty_country = Inr ?s2"
    by (simp add: merge_eval location_with_empty_country_def sample_snapshot_def)
  have r1: "weatherData (snd (fetchWeatherData ?n1 0 0 initialState)) = Some ?s1"
    by (simp add: run_responding m1)
  have r2: "weatherData (snd (fetchWeatherData ?n2 0 0 initialState)) = Some ?s2"
    by (simp add: run_responding m2)
  have l1: "?n1 (LocationRequest 0 0) = Response True (Some location_without_city)"
    by simp
  have l2: "?n2 (LocationRequest 0 0) = Response True (Some location_with_empty_country)"
    by simp
  have n: "name (location ?s1) = VStr ''Unknown''"
    using location_fallback [where net = ?n1, OF l1 r1] c1 by blast
  have c: "country (location ?s2) = VStr ''Unknown''"
    using location_fallback [where net = ?n2, OF l2 r2] c2 by blast
  from n c c1 c2 r1 r2 show ?thesis
    by auto
qed

text \<open>
  C4, as the code has it. A run in which a call is rejected, answers with a non-success
  status or a body that does not parse, or in which the object literal throws, ends with
  the one message \<^verbatim>\<open>Failed to fetch weather data\<close> and no snapshot; every other run
  stores a snapshot and sets no message. The object literal throws exactly on the
  responses \<open>merge_throws\<close> describes: a block it reads from is \<^verbatim>\<open>undefined\<close> or
  \<^verbatim>\<open>null\<close>, or a time value is not an array, as with an absent \<^verbatim>\<open>daily.time\<close>.
\<close>

theorem fetch_failure_collapses:
  "(((\<exists>req\<in>{CurrentWeatherRequest lat lon, ForecastRequest lat lon,
           LocationRequest lat lon}.
         net req = Rejected \<or> (\<exists>body. net req = Response False body) \<or>
         net req = Response True None) \<or>
      (\<exists>cw fd ld.
         net (CurrentWeatherRequest lat lon) = Response True (Some cw) \<and>
         net (ForecastRequest lat lon) = Response True (Some fd) \<and>
         net (LocationRequest lat lon) = Response True (Some ld) \<and>
         isl (mappedWeatherData cw fd ld)))
     \<longrightarrow> snd (fetchWeatherData net lat lon st) =
           st\<lparr> error := Some ''Failed to fetch weather data'', loading := False \<rparr> \<and>
         weatherData (snd (fetchWeatherData net lat lon st)) = weatherData st) \<and>
   (\<not> ((\<exists>req\<in>{CurrentWeatherRequest lat lon, ForecastRequest lat lon,
           LocationRequest lat lon}.
         net req = Rejected \<or> (\<exists>body. net req = Response False body) \<or>
         net req = Response True None) \<or>
      (\<exists>cw fd ld.
         net (CurrentWeatherRequest lat lon) = Response True (Some cw) \<and>
         net (ForecastRequest lat lon) = Response True (Some fd) \<and>
         net (LocationRequest lat lon) = Response True (Some ld) \<and>
         isl (mappedWeatherData cw fd ld)))
     \<longrightarrow> (\<exists>s. snd (fetchWeatherData net lat lon st) =
           st\<lparr> weatherData := Some s, loading := False \<rparr>)) \<and>
   (isl (mappedWeatherData currentWeatherData forecastData locationData) \<longleftrightarrow>
      reads_nullish currentWeatherData [''current_weather''] \<or>
      (case array_of (get_path forecastData [''daily'', ''time'']) of
         None \<Rightarrow> True
       | Some ts \<Rightarrow>
           ts \<noteq> [] \<and>
           (reads_nullish forecastData [''daily'', ''temperature_2m_max''] \<or>
            reads_nullish forecastData [''daily'', ''temperature_2m_min''])) \<or>
      (case array_of (get_path forecastData [''hourly'', ''time'']) of
         None \<Rightarrow> True
       | Some hs \<Rightarrow> hs \<noteq> [] \<and> reads_nullish forecastData [''hourly'', ''temperature_2m'']) \<or>
      nullish locationData \<or>
      reads_nullish forecastData [''daily'', ''sunrise''] \<or>
      reads_nullish forecastData [''daily'', ''sunset''])"
proof (intro conjI impI)
  let ?fails = "(\<exists>req\<in>{CurrentWeatherRequest lat lon, ForecastRequest lat lon,
           LocationRequest lat lon}.
         net req = Rejected \<or> (\<exists>body. net req = Response False body) \<or>
         net req = Response True None) \<or>
      (\<exists>cw fd ld.
         net (CurrentWeatherRequest lat lon) = Response True (Some cw) \<and>
         net (ForecastRequest lat lon) = Response True (Some fd) \<and>
         net (LocationRequest lat lon) = Response True (Some ld) \<and>
         isl (mappedWeatherData cw fd ld))"
  {
    assume ?fails
    then have "\<exists>e. snd (tryBlock net lat lon) = Inl e"
    proof
      assume "\<exists>req\<in>{CurrentWeatherRequest lat lon, ForecastRequest lat lon,
           LocationRequest lat lon}.
         net req = Rejected \<or> (\<exists>body. net req = Response False body) \<or>
         net req = Response True None"
      then obtain req where
        req: "req \<in> {CurrentWeatherRequest lat lon, ForecastRequest lat lon,
          LocationRequest lat lon}"
        and "net req = Rejected \<or> (\<exists>body. net req = Response False body) \<or>
          net req = Response True None"
        by blast
      then have "\<exists>e. fetch_json net req msg = Inl e" for msg
        by (intro fetch_json_Inl)
      then obtain e1 e2 e3 where
        "fetch_json net req ''Failed to fetch current weather data'' = Inl e1"
        "fetch_json net req ''Failed to fetch forecast data'' = Inl e2"
        "fetch_json net req ''Failed to fetch location data'' = Inl e3"
        by blast
      with req show ?thesis
        by (intro tryBlock_Inl [of net lat lon e1 e2 e3]) blast
    next
      assume "\<exists>cw fd ld.
         net (CurrentWeatherRequest lat lon) = Response True (Some cw) \<and>
         net (ForecastRequest lat lon) = Response True (Some fd) \<and>
         net (LocationRequest lat lon) = Response True (Some ld) \<and>
         isl (mappedWeatherData cw fd ld)"
      then obtain cw fd ld where
        n: "net (CurrentWeatherRequest lat lon) = Response True (Some cw)"
          "net (ForecastRequest lat lon) = Response True (Some fd)"
          "net (LocationRequest lat lon) = Response True (Some ld)"
        and "isl (mappedWeatherData cw fd ld)"
        by blast
      then obtain e where "mappedWeatherData cw fd ld = Inl e"
        by (cases "mappedWeatherData cw fd ld") simp_all
      then show ?thesis
        by (simp add: tryBlock_responses [OF n])
    qed
    then obtain e where e: "snd (tryBlock net lat lon) = Inl e" ..
    show "snd (fetchWeatherData net lat lon st) =
        st\<lparr> error := Some ''Failed to fetch weather data'', loading := False \<rparr>"
      by (simp add: fetchWeatherData_failed [OF e])
    show "weatherData (snd (fetchWeatherData net lat lon st)) = weatherData st"
      by (simp add: fetchWeatherData_failed [OF e])
  }
  {
    assume ok: "\<not> ?fails"
    have "\<exists>v. net req = Response True (Some v)"
      if "req \<in> {CurrentWeatherRequest lat lon, ForecastRequest lat lon,
        LocationRequest lat lon}" for req
    proof -
      from ok that have "net req \<noteq> Rejected" "net req \<noteq> Response False body"
        "net req \<noteq> Response True None" for body
        by blast+
      then show ?thesis
        by (metis (full_types) response.exhaust option.exhaust)
    qed
    then obtain cw fd ld where
      n: "net (CurrentWeatherRequest lat lon) = Response True (Some cw)"
        "net (ForecastRequest lat lon) = Response True (Some fd)"
        "net (LocationRequest lat lon) = Response True (Some ld)"
      by (meson insertI1 insertI2)
    with ok have "\<not> isl (mappedWeatherData cw fd ld)"
      by blast
    then obtain s where "mappedWeatherData cw fd ld = Inr s"
      by (auto simp: not_isl_iff)
    then have "snd (fetchWeatherData net lat lon st) =
        st\<lparr> weatherData := Some s, loading := False \<rparr>"
      by (simp add: fetchWeatherData_responses [OF n])
    then show "\<exists>s. snd (fetchWeatherData net lat lon st) =
        st\<lparr> weatherData := Some s, loading := False \<rparr>" ..
  }
  show "isl (mappedWeatherData currentWeatherData forecastData locationData) \<longleftrightarrow>
      reads_nullish currentWeatherData [''current_weather''] \<or>
      (case array_of (get_path forecastData [''daily'', ''time'']) of
         None \<Rightarrow> True
       | Some ts \<Rightarrow>
           ts \<noteq> [] \<and>
           (reads_nullish forecastData [''daily'', ''temperature_2m_max''] \<or>
            reads_nullish forecastData [''daily'', ''temperature_2m_min''])) \<or>
      (case array_of (get_path forecastData [''hourly'', ''time'']) of
         None \<Rightarrow> True
       | Some hs \<Rightarrow> hs \<noteq> [] \<and> reads_nullish forecastData [''hourly'', ''temperature_2m'']) \<or>
      nullish locationData \<or>
      reads_nullish forecastData [''daily'', ''sunrise''] \<or>
      reads_nullish forecastData [''daily'', ''sunset'']"
    unfolding mappedWeatherData_throws_iff merge_throws_def ..
qed

theorem fetch_failure_collapses_witness:
  "isl (mappedWeatherData berlin_current forecast_without_time berlin_location) \<and>
   array_of (get_path forecast_without_time [''daily'', ''time'']) = None \<and>
   snd (fetchWeatherData
       (responding (Response True (Some berlin_current))
          (Response True (Some forecast_without_time)) (Response True (Some berlin_location)))
       0 0 initialState) =
     \<lparr> weatherData = None, loading = False, error = Some ''Failed to fetch weather data'' \<rparr> \<and>
   snd (fetchWeatherData
       (responding (Response True (Some berlin_current)) (Response True (Some sample_forecast))
          Rejected)
       0 0 initialState) =
     \<lparr> weatherData = None, loading = False, error = Some ''Failed to fetch weather data'' \<rparr> \<and>
   (\<exists>s. snd (fetchWeatherData
       (responding (Response True (Some bare_current)) (Response True (Some sample_forecast))
          (Response True (Some berlin_location)))
       0 0 initialState) = \<lparr> weatherData = Some s, loading = False, error = None \<rparr>)"
proof -
  let ?n1 = "responding (Response True (Some berlin_current))
     (Response True (Some forecast_without_time)) (Response True (Some berlin_location))"
  let ?n2 = "responding (Response True (Some berlin_current))
     (Response True (Some sample_forecast)) Rejected"
  let ?n3 = "responding (Response True (Some bare_current))
     (Response True (Some sample_forecast)) (Response True (Some berlin_location))"
  have a: "array_of (get_path forecast_without_time [''daily'', ''time'']) = None"
    by (simp add: forecast_without_time_def)
  have t: "isl (mappedWeatherData berlin_current forecast_without_time berlin_location)"
    using fetch_failure_collapses [where currentWeatherData = berlin_current
        and forecastData = forecast_without_time and locationData = berlin_location] a
    by simp
  have 1: "(\<exists>req\<in>{CurrentWeatherRequest 0 0, ForecastRequest 0 0, LocationRequest 0 0}.
        ?n1 req = Rejected \<or> (\<exists>body. ?n1 req = Response False body) \<or>
        ?n1 req = Response True None) \<or>
     (\<exists>cw fd ld.
        ?n1 (CurrentWeatherRequest 0 0) = Response True (Some cw) \<and>
        ?n1 (ForecastRequest 0 0) = Response True (Some fd) \<and>
        ?n1 (LocationRequest 0 0) = Response True (Some ld) \<and>
        isl (mappedWeatherData cw fd ld))"
    using t by simp
  have 2: "(\<exists>req\<in>{CurrentWeatherRequest 0 0, ForecastRequest 0 0, LocationRequest 0 0}.
        ?n2 req = Rejected \<or> (\<exists>body. ?n2 req = Response False body) \<or>
        ?n2 req = Response True None) \<or>
     (\<exists>cw fd ld.
        ?n2 (CurrentWeatherRequest 0 0) = Response True (Some cw) \<and>
        ?n2 (ForecastRequest 0 0) = Response True (Some fd) \<and>
        ?n2 (LocationRequest 0 0) = Response True (Some ld) \<and>
        isl (mappedWeatherData cw fd ld))"
    by simp
  have m: "\<not> isl (mappedWeatherData bare_current sample_forecast berlin_location)"
    by (simp add: merge_eval bare_current_def)
  have 3: "\<not> ((\<exists>req\<in>{CurrentWeatherRequest 0 0, ForecastRequest 0 0, LocationRequest 0 0}.
        ?n3 req = Rejected \<or> (\<exists>body. ?n3 req = Response False body) \<or>
        ?n3 req = Response True None) \<or>
     (\<exists>cw fd ld.
        ?n3 (CurrentWeatherRequest 0 0) = Response True (Some cw) \<and>
        ?n3 (ForecastRequest 0 0) = Response True (Some fd) \<and>
        ?n3 (LocationRequest 0 0) = Response True (Some ld) \<and>
        isl (mappedWeatherData cw fd ld)))"
    using m by auto
  have r1: "snd (fetchWeatherData ?n1 0 0 initialState) =
      initialState\<lparr> error := Some ''Failed to fetch weather data'', loading := False \<rparr>"
    using fetch_failure_collapses [where net = ?n1 and st = initialState and lat = 0 and lon = 0]
      1 by blast
  have r2: "snd (fetchWeatherData ?n2 0 0 initialState) =
      initialState\<lparr> error := Some ''Failed to fetch weather data'', loading := False \<rparr>"
    using fetch_failure_collapses [where net = ?n2 and st = initialState and lat = 0 and lon = 0]
      2 by blast
  have r3: "\<exists>s. snd (fetchWeatherData ?n3 0 0 initialState) =
      initialState\<lparr> weatherData := Some s, loading := False \<rparr>"
    using fetch_failure_collapses [where net = ?n3 and st = initialState and lat = 0 and lon = 0]
      3 by blast
  from a t r1 r2 r3 show ?thesis
    by (simp add: initialState_def)
qed

theorem fetch_failure_collapses_counterexample:
  "get_path bare_current [''current_weather'', ''temperature''] = Inr VUndefined \<and>
   get_path bare_current [''current_weather'', ''windspeed''] = Inr VUndefined \<and>
   snd (fetchWeatherData
       (responding (Response True (Some bare_current)) (Response True (Some sample_forecast))
          (Response True (Some berlin_location)))
       0 0 initialState) =
     \<lparr> weatherData =
         Some (sample_snapshot\<lparr> current :=
           \<lparr> Current.temperature = VUndefined, windSpeed = VUndefined, humidity = VNum 0,
             uvIndex = VNum 0, pressure = VNum 0, Current.condition = VStr ''Clear'' \<rparr> \<rparr>),
       loading = False, error = None \<rparr> \<and>
   snd (fetchWeatherData
       (responding (Response True (Some bare_current)) (Response True (Some sample_forecast))
          (Response True (Some berlin_location)))
       0 0 initialState) \<noteq>
     \<lparr> weatherData = None, loading = False, error = Some ''Failed to fetch weather data'' \<rparr>"
proof -
  have "mappedWeatherData bare_current sample_forecast berlin_location =
      Inr (sample_snapshot\<lparr> current :=
           \<lparr> Current.temperature = VUndefined, windSpeed = VUndefined, humidity = VNum 0,
             uvIndex = VNum 0, pressure = VNum 0, Current.condition = VStr ''Clear'' \<rparr> \<rparr>)"
    by (simp add: merge_eval bare_current_def sample_snapshot_def)
  then show ?thesis
    by (simp add: run_responding initialState_def bare_current_def)
qed

text \<open>
  C5. Without \<^verbatim>\<open>navigator.geolocation\<close> the session ends with the message
  \<^verbatim>\<open>Geolocation is not supported by this browser\<close>, and no request is issued.
\<close>

theorem no_geolocation_no_request:
  assumes "geolocation host = None"
  shows "getLocation host st =
       ([], st\<lparr> error := Some ''Geolocation is not supported by this browser'',
                 loading := False \<rparr>) \<and>
     useEffect host =
       ([], \<lparr> weatherData = None, loading = False,
              error = Some ''Geolocation is not supported by this browser'' \<rparr>)"
  using assms by (simp add: getLocation_def useEffect_def initialState_def)

theorem no_geolocation_no_request_witness:
  "geolocation host_without_geolocation = None \<and>
   fst (useEffect host_without_geolocation) = [] \<and>
   error (snd (useEffect host_without_geolocation)) =
     Some ''Geolocation is not supported by this browser'' \<and>
   weatherData (snd (useEffect host_without_geolocation)) = None"
proof -
  have 1: "geolocation host_without_geolocation = None"
    by (simp add: host_without_geolocation_def)
  from no_geolocation_no_request [OF 1, of initialState] 1 show ?thesis
    by simp
qed

text \<open>
  C6. In a snapshot the aggregator produced, humidity, UV index and pressure are the
  number 0, the condition of the current block and of every daily and hourly entry is
  \<^verbatim>\<open>Clear\<close>, and dawn and dusk are the empty string.
\<close>

theorem placeholders_fixed:
  assumes "weatherData (snd (fetchWeatherData net lat lon initialState)) = Some s"
  shows "humidity (current s) = VNum 0 \<and> uvIndex (current s) = VNum 0 \<and>
     pressure (current s) = VNum 0 \<and> Current.condition (current s) = VStr ''Clear'' \<and>
     (\<forall>d\<in>set (daily (forecast s)). Daily.condition d = VStr ''Clear'') \<and>
     (\<forall>h\<in>set (hourly (forecast s)). Hourly.condition h = VStr ''Clear'') \<and>
     dawn (astronomy s) = VStr '''' \<and> dusk (astronomy s) = VStr ''''"
proof -
  from produced_merge [OF assms] obtain cw fd ld where
    m: "mappedWeatherData cw fd ld = Inr s" by auto
  then obtain ts hts where
    ds: "call_map ts (dailyEntry fd) = Inr (daily (forecast s))" and
    hs: "call_map hts (hourlyEntry fd) = Inr (hourly (forecast s))"
    by (auto simp: mappedWeatherData_Inr_iff)
  have "Daily.condition d = VStr ''Clear''" if "d \<in> set (daily (forecast s))" for d
  proof -
    from ds that obtain x j where "dailyEntry fd x j = Inr d"
      by (auto simp: call_map_Inr dest: map_from_set)
    then show ?thesis by (auto simp: dailyEntry_Inr)
  qed
  moreover have "Hourly.condition h = VStr ''Clear''" if "h \<in> set (hourly (forecast s))" for h
  proof -
    from hs that obtain x j where "hourlyEntry fd x j = Inr h"
      by (auto simp: call_map_Inr dest: map_from_set)
    then show ?thesis by (auto simp: hourlyEntry_Inr)
  qed
  moreover from m have "humidity (current s) = VNum 0 \<and> uvIndex (current s) = VNum 0 \<and>
     pressure (current s) = VNum 0 \<and> Current.condition (current s) = VStr ''Clear'' \<and>
     dawn (astronomy s) = VStr '''' \<and> dusk (astronomy s) = VStr ''''"
    by (auto simp: mappedWeatherData_Inr_iff)
  ultimately show ?thesis by blast
qed

theorem placeholders_fixed_witness:
  "weatherData (snd (fetchWeatherData sample_network 0 0 initialState)) = Some sample_snapshot \<and>
   humidity (current sample_snapshot) = VNum 0 \<and> uvIndex (current sample_snapshot) = VNum 0 \<and>
   pressure (current sample_snapshot) = VNum 0 \<and>
   Current.condition (current sample_snapshot) = VStr ''Clear'' \<and>
   length (daily (forecast sample_snapshot)) = 2 \<and>
   Daily.condition (daily (forecast sample_snapshot) ! 1) = VStr ''Clear'' \<and>
   length (hourly (forecast sample_snapshot)) = 2 \<and>
   Hourly.condition (hourly (forecast sample_snapshot) ! 1) = VStr ''Clear'' \<and>
   dawn (astronomy sample_snapshot) = VStr '''' \<and> dusk (astronomy sample_snapshot) = VStr ''''"
proof -
  have r: "weatherData (snd (fetchWeatherData sample_network 0 0 initialState)) =
      Some sample_snapshot"
    by (simp add: sample_network_def sample_run)
  have ld: "length (daily (forecast sample_snapshot)) = 2"
    and lh: "length (hourly (forecast sample_snapshot)) = 2"
    by (simp_all add: sample_snapshot_def)
  then have "daily (forecast sample_snapshot) ! 1 \<in> set (daily (forecast sample_snapshot))"
    and "hourly (forecast sample_snapshot) ! 1 \<in> set (hourly (forecast sample_snapshot))"
    by simp_all
  with placeholders_fixed [OF r] r ld lh show ?thesis
    by blast
qed

text \<open>
  C7. In a snapshot the aggregator produced, sunrise and sunset are what index 0 of
  \<^verbatim>\<open>daily.sunrise\<close> and \<^verbatim>\<open>daily.sunset\<close> of the forecast response reads,
  whatever the current-weather response holds.
\<close>

theorem sun_times_from_forecast:
  assumes "net (ForecastRequest lat lon) = Response True (Some fd)"
    and "weatherData (snd (fetchWeatherData net lat lon initialState)) = Some s"
  shows "bind_result (get_path fd [''daily'', ''sunrise'']) (\<lambda>a. get_index a 0) =
       Inr (sunrise (astronomy s)) \<and>
     bind_result (get_path fd [''daily'', ''sunset'']) (\<lambda>a. get_index a 0) =
       Inr (sunset (astronomy s))"
proof -
  from produced_merge [OF assms(2)] assms(1) obtain cw ld where
    "mappedWeatherData cw fd ld = Inr s" by auto
  then show ?thesis
    by (auto simp: mappedWeatherData_Inr_iff)
qed

theorem sun_times_from_forecast_witness:
  "bind_result (get_path current_with_daily [''daily'', ''sunrise'']) (\<lambda>a. get_index a 0) =
     Inr (VStr ''2024-06-01T04:44'') \<and>
   bind_result (get_path sample_forecast [''daily'', ''sunrise'']) (\<lambda>a. get_index a 0) =
     Inr (VStr ''2024-06-01T04:45'') \<and>
   weatherData (snd (fetchWeatherData
       (responding (Response True (Some current_with_daily))
          (Response True (Some sample_forecast)) (Response True (Some berlin_location)))
       0 0 initialState)) = Some sample_snapshot \<and>
   sunrise (astronomy sample_snapshot) = VStr ''2024-06-01T04:45'' \<and>
   sunset (astronomy sample_snapshot) = VStr ''2024-06-01T21:10''"
proof -
  let ?net = "responding (Response True (Some current_with_daily))
     (Response True (Some sample_forecast)) (Response True (Some berlin_location))"
  have a: "bind_result (get_path current_with_daily [''daily'', ''sunrise''])
      (\<lambda>a. get_index a 0) = Inr (VStr ''2024-06-01T04:44'')"
    by (simp add: current_with_daily_def)
  have b: "bind_result (get_path sample_forecast [''daily'', ''sunrise''])
      (\<lambda>a. get_index a 0) = Inr (VStr ''2024-06-01T04:45'')"
    and c: "bind_result (get_path sample_forecast [''daily'', ''sunset''])
      (\<lambda>a. get_index a 0) = Inr (VStr ''2024-06-01T21:10'')"
    by (simp_all add: sample_forecast_def berlin_daily_def)
  have m: "mappedWeatherData current_with_daily sample_forecast berlin_location =
      Inr sample_snapshot"
    by (simp add: merge_eval current_with_daily_def sample_snapshot_def)
  have r: "weatherData (snd (fetchWeatherData ?net 0 0 initialState)) = Some sample_snapshot"
    by (simp add: run_responding m)
  have f: "?net (ForecastRequest 0 0) = Response True (Some sample_forecast)"
    by simp
  from sun_times_from_forecast [where net = ?net, OF f r] a b c r show ?thesis
    by simp
qed

text \<open>
  C8, as the code has it. The scenario at coordinate (52.52, 13.405): with the
  current-weather and geocode responses of the scenario and a forecast response whose
  daily block is the scenario's and whose hourly block holds a \<^verbatim>\<open>time\<close> array and a
  \<^verbatim>\<open>temperature_2m\<close> array, a snapshot is produced, with temperature 18.4, name
  \<^verbatim>\<open>Berlin\<close>, sunrise \<^verbatim>\<open>2024-06-01T04:45\<close> and a maximum of 24 in the second
  daily entry. With the daily block alone the read of \<^verbatim>\<open>forecastData.hourly.time\<close>
  throws, and the run ends with the message and no snapshot.
\<close>

theorem berlin_scenario:
  assumes "net (CurrentWeatherRequest (5252 / 100) (13405 / 1000)) =
      Response True (Some berlin_current)"
    and "net (ForecastRequest (5252 / 100) (13405 / 1000)) = Response True (Some fd)"
    and "net (LocationRequest (5252 / 100) (13405 / 1000)) =
      Response True (Some berlin_location)"
    and "get_prop fd ''daily'' = Inr berlin_daily"
    and "get_path fd [''hourly'', ''time''] = Inr (VArr hs)"
    and "get_path fd [''hourly'', ''temperature_2m''] = Inr (VArr ht)"
  shows "\<exists>s. snd (fetchWeatherData net (5252 / 100) (13405 / 1000) initialState) =
         initialState\<lparr> weatherData := Some s, loading := False \<rparr> \<and>
       Current.temperature (current s) = VNum (184 / 10) \<and>
       name (location s) = VStr ''Berlin'' \<and>
       sunrise (astronomy s) = VStr ''2024-06-01T04:45'' \<and>
       temperatureMax (daily (forecast s) ! 1) = VNum 24"
proof -
  have dt: "get_path fd [''daily'', ''time''] =
      Inr (VArr [VStr ''2024-06-01'', VStr ''2024-06-02''])"
    and mx: "get_path fd [''daily'', ''temperature_2m_max''] = Inr (VArr [VNum 22, VNum 24])"
    and mn: "get_path fd [''daily'', ''temperature_2m_min''] = Inr (VArr [VNum 14, VNum 15])"
    and sr: "get_path fd [''daily'', ''sunrise''] = Inr (VArr [VStr ''2024-06-01T04:45''])"
    and ss: "get_path fd [''daily'', ''sunset''] = Inr (VArr [VStr ''2024-06-01T21:10''])"
    using assms(4) by (simp_all add: berlin_daily_def)
  have cw: "get_prop berlin_current ''current_weather'' =
      Inr (VObj [(''temperature'', VNum (184 / 10)), (''windspeed'', VNum (31 / 10))])"
    by (simp add: berlin_current_def)
  have "\<exists>s. mappedWeatherData berlin_current fd berlin_location = Inr s"
    by (rule merge_succeeds [OF cw _ dt mx _ mn _ assms(5) assms(6) _ _ sr _ ss])
      (simp_all add: nullish_def berlin_location_def)
  then obtain s where m: "mappedWeatherData berlin_current fd berlin_location = Inr s" ..
  have "dailyEntry fd (VStr ''2024-06-02'') 1 = Inr (daily (forecast s) ! 1)"
    using map_from_nth [OF merged_daily [OF m dt], of 1] by simp
  then have "temperatureMax (daily (forecast s) ! 1) = VNum 24"
    using mx by (auto simp: dailyEntry_Inr)
  moreover from m sr have "sunrise (astronomy s) = VStr ''2024-06-01T04:45''"
    by (auto simp: mappedWeatherData_Inr_iff)
  moreover from m have "Current.temperature (current s) = VNum (184 / 10)"
    by (auto simp: mappedWeatherData_Inr_iff berlin_current_def)
  moreover from m have "name (location s) = VStr ''Berlin''"
    by (auto simp: mappedWeatherData_Inr_iff berlin_location_def js_or_def)
  moreover have "snd (fetchWeatherData net (5252 / 100) (13405 / 1000) initialState) =
      initialState\<lparr> weatherData := Some s, loading := False \<rparr>"
    using fetchWeatherData_responses [OF assms(1,2,3), of initialState] m by simp
  ultimately show ?thesis by blast
qed

theorem berlin_scenario_witness:
  "get_prop sample_forecast ''daily'' = Inr berlin_daily \<and>
   (\<exists>s. snd (fetchWeatherData sample_network (5252 / 100) (13405 / 1000) initialState) =
         initialState\<lparr> weatherData := Some s, loading := False \<rparr> \<and>
       Current.temperature (current s) = VNum (184 / 10) \<and>
       name (location s) = VStr ''Berlin'' \<and>
       sunrise (astronomy s) = VStr ''2024-06-01T04:45'' \<and>
       temperatureMax (daily (forecast s) ! 1) = VNum 24)"
proof -
  have 1: "sample_network (CurrentWeatherRequest (5252 / 100) (13405 / 1000)) =
      Response True (Some berlin_current)"
    and 2: "sample_network (ForecastRequest (5252 / 100) (13405 / 1000)) =
      Response True (Some sample_forecast)"
    and 3: "sample_network (LocationRequest (5252 / 100) (13405 / 1000)) =
      Response True (Some berlin_location)"
    by (simp_all add: sample_network_def)
  have 4: "get_prop sample_forecast ''daily'' = Inr berlin_daily"
    by (simp add: sample_forecast_def)
  have 5: "get_path sample_forecast [''hourly'', ''time''] =
      Inr (VArr [VStr ''2024-06-01T00:00'', VStr ''2024-06-01T01:00''])"
    and 6: "get_path sample_forecast [''hourly'', ''temperature_2m''] =
      Inr (VArr [VNum 13, VNum (25 / 2)])"
    by (simp_all add: sample_forecast_def sample_hourly_def)
  from berlin_scenario [where net = sample_network, OF 1 2 3 4 5 6] 4 show ?thesis
    by blast
qed

theorem berlin_scenario_counterexample:
  "get_prop berlin_forecast_daily_only ''daily'' = Inr berlin_daily \<and>
   get_prop berlin_forecast_daily_only ''hourly'' = Inr VUndefined \<and>
   fetchWeatherData
       (responding (Response True (Some berlin_current))
          (Response True (Some berlin_forecast_daily_only))
          (Response True (Some berlin_location)))
       (5252 / 100) (13405 / 1000) initialState =
     ([CurrentWeatherRequest (5252 / 100) (13405 / 1000),
       ForecastRequest (5252 / 100) (13405 / 1000),
       LocationRequest (5252 / 100) (13405 / 1000)],
      \<lparr> weatherData = None, loading = False,
        error = Some ''Failed to fetch weather data'' \<rparr>)"
proof -
  have "tryBlock
       (responding (Response True (Some berlin_current))
          (Response True (Some berlin_forecast_daily_only))
          (Response True (Some berlin_location)))
       (5252 / 100) (13405 / 1000) =
     ([CurrentWeatherRequest (5252 / 100) (13405 / 1000),
       ForecastRequest (5252 / 100) (13405 / 1000),
       LocationRequest (5252 / 100) (13405 / 1000)], Inl TypeError)"
    using tryBlock_responses [where net = "responding (Response True (Some berlin_current))
          (Response True (Some berlin_forecast_daily_only))
          (Response True (Some berlin_location))"
        and lat = "5252 / 100" and lon = "13405 / 1000" and cw = berlin_current
        and fd = berlin_forecast_daily_only and ld = berlin_location]
      berlin_without_hourly
    by (simp add: berlin_forecast_daily_only_def)
  then show ?thesis
    by (simp add: fetchWeatherData_def initialState_def berlin_forecast_daily_only_def)
qed

text \<open>
  C10. The lengths of the merged arrays are those of the time arrays. Whatever the lengths
  of the temperature arrays, the aggregation succeeds, and an entry at an index beyond a
  temperature array holds \<^verbatim>\<open>undefined\<close>.
\<close>

theorem short_temperature_arrays_succeed:
  assumes "net (CurrentWeatherRequest lat lon) = Response True (Some cw)"
    and "net (ForecastRequest lat lon) = Response True (Some fd)"
    and "net (LocationRequest lat lon) = Response True (Some ld)"
    and "get_prop cw ''current_weather'' = Inr c" and "\<not> nullish c"
    and "get_path fd [''daily'', ''time''] = Inr (VArr ts)"
    and "get_path fd [''daily'', ''temperature_2m_max''] = Inr (VArr mx)"
    and "get_path fd [''daily'', ''temperature_2m_min''] = Inr (VArr mn)"
    and "get_path fd [''hourly'', ''time''] = Inr (VArr hs)"
    and "get_path fd [''hourly'', ''temperature_2m''] = Inr (VArr ht)"
    and "get_path fd [''daily'', ''sunrise''] = Inr ra" and "\<not> nullish ra"
    and "get_path fd [''daily'', ''sunset''] = Inr sa" and "\<not> nullish sa"
    and "\<not> nullish ld"
  shows "\<exists>s. snd (fetchWeatherData net lat lon st) =
         st\<lparr> weatherData := Some s, loading := False \<rparr> \<and>
       length (daily (forecast s)) = length ts \<and>
       length (hourly (forecast s)) = length hs \<and>
       (\<forall>i<length ts.
          temperatureMax (daily (forecast s) ! i) =
            (if i < length mx then mx ! i else VUndefined) \<and>
          temperatureMin (daily (forecast s) ! i) =
            (if i < length mn then mn ! i else VUndefined)) \<and>
       (\<forall>i<length hs.
          Hourly.temperature (hourly (forecast s) ! i) =
            (if i < length ht then ht ! i else VUndefined))"
proof -
  have "\<exists>s. mappedWeatherData cw fd ld = Inr s"
    by (rule merge_succeeds [OF assms(4,5,6,7) _ assms(8) _ assms(9,10) _ assms(15,11,12,13,14)])
      (simp_all add: nullish_def)
  then obtain s where m: "mappedWeatherData cw fd ld = Inr s" ..
  note ds = merged_daily [OF m assms(6)]
  note hs = merged_hourly [OF m assms(9)]
  have "temperatureMax (daily (forecast s) ! i) = (if i < length mx then mx ! i else VUndefined) \<and>
      temperatureMin (daily (forecast s) ! i) = (if i < length mn then mn ! i else VUndefined)"
    if "i < length ts" for i
    using map_from_nth [OF ds that] assms(7,8) by (auto simp: dailyEntry_Inr)
  moreover have "Hourly.temperature (hourly (forecast s) ! i) =
      (if i < length ht then ht ! i else VUndefined)"
    if "i < length hs" for i
    using map_from_nth [OF hs that] assms(10) by (auto simp: hourlyEntry_Inr)
  moreover have "snd (fetchWeatherData net lat lon st) =
      st\<lparr> weatherData := Some s, loading := False \<rparr>"
    by (simp add: fetchWeatherData_responses [OF assms(1,2,3)] m)
  ultimately show ?thesis
    using map_from_length [OF ds] map_from_length [OF hs] by blast
qed

theorem short_temperature_arrays_succeed_witness:
  "\<exists>s. snd (fetchWeatherData
         (responding (Response True (Some berlin_current)) (Response True (Some short_forecast))
            (Response True (Some berlin_location))) 0 0 initialState) =
       \<lparr> weatherData = Some s, loading = False, error = None \<rparr> \<and>
     length (daily (forecast s)) = 2 \<and>
     length (hourly (forecast s)) = 2 \<and>
     temperatureMax (daily (forecast s) ! 0) = VNum 22 \<and>
     temperatureMax (daily (forecast s) ! 1) = VUndefined \<and>
     temperatureMin (daily (forecast s) ! 0) = VUndefined \<and>
     temperatureMin (daily (forecast s) ! 1) = VUndefined \<and>
     Hourly.temperature (hourly (forecast s) ! 0) = VNum 13 \<and>
     Hourly.temperature (hourly (forecast s) ! 1) = VUndefined"
proof -
  let ?net = "responding (Response True (Some berlin_current))
     (Response True (Some short_forecast)) (Response True (Some berlin_location))"
  have n: "?net (CurrentWeatherRequest 0 0) = Response True (Some berlin_current)"
    "?net (ForecastRequest 0 0) = Response True (Some short_forecast)"
    "?net (LocationRequest 0 0) = Response True (Some berlin_location)"
    by simp_all
  have cw: "get_prop berlin_current ''current_weather'' =
      Inr (VObj [(''temperature'', VNum (184 / 10)), (''windspeed'', VNum (31 / 10))])"
    "\<not> nullish (VObj [(''temperature'', VNum (184 / 10)), (''windspeed'', VNum (31 / 10))])"
    by (simp_all add: berlin_current_def nullish_def)
  have fd: "get_path short_forecast [''daily'', ''time''] =
      Inr (VArr [VStr ''2024-06-01'', VStr ''2024-06-02''])"
    "get_path short_forecast [''daily'', ''temperature_2m_max''] = Inr (VArr [VNum 22])"
    "get_path short_forecast [''daily'', ''temperature_2m_min''] = Inr (VArr [])"
    "get_path short_forecast [''hourly'', ''time''] =
      Inr (VArr [VStr ''2024-06-01T00:00'', VStr ''2024-06-01T01:00''])"
    "get_path short_forecast [''hourly'', ''temperature_2m''] = Inr (VArr [VNum 13])"
    "get_path short_forecast [''daily'', ''sunrise''] = Inr (VArr [VStr ''2024-06-01T04:45''])"
    "\<not> nullish (VArr [VStr ''2024-06-01T04:45''])"
    "get_path short_forecast [''daily'', ''sunset''] = Inr (VArr [VStr ''2024-06-01T21:10''])"
    "\<not> nullish (VArr [VStr ''2024-06-01T21:10''])"
    by (simp_all add: short_forecast_def nullish_def)
  have ld: "\<not> nullish berlin_location"
    by (simp add: berlin_location_def nullish_def)
  from short_temperature_arrays_succeed [where net = ?net and st = initialState, OF n cw fd ld]
  obtain s where s: "snd (fetchWeatherData ?net 0 0 initialState) =
      initialState\<lparr> weatherData := Some s, loading := False \<rparr>"
    "length (daily (forecast s)) = 2" "length (hourly (forecast s)) = 2"
    "\<forall>i<2. temperatureMax (daily (forecast s) ! i) =
        (if i < 1 then [VNum 22] ! i else VUndefined) \<and>
      temperatureMin (daily (forecast s) ! i) = VUndefined"
    "\<forall>i<2. Hourly.temperature (hourly (forecast s) ! i) =
        (if i < 1 then [VNum 13] ! i else VUndefined)"
    by auto
  from s(4) have "temperatureMax (daily (forecast s) ! 0) = VNum 22"
    "temperatureMax (daily (forecast s) ! 1) = VUndefined"
    "temperatureMin (daily (forecast s) ! 0) = VUndefined"
    "temperatureMin (daily (forecast s) ! 1) = VUndefined"
    by simp_all
  moreover from s(5) have "Hourly.temperature (hourly (forecast s) ! 0) = VNum 13"
    "Hourly.temperature (hourly (forecast s) ! 1) = VUndefined"
    by simp_all
  moreover from s(1) have "snd (fetchWeatherData ?net 0 0 initialState) =
      \<lparr> weatherData = Some s, loading = False, error = None \<rparr>"
    by (simp add: initialState_def)
  ultimately show ?thesis using s(2,3) by blast
qed

end
